theory Spec2Isabelle
  imports Main "HOL-Library.Word" "HOL-Library.AList"
begin

section \<open>Shared types\<close>

text \<open>
  Go's \<open>uint8\<close> and the elements of a \<open>[]byte\<close> are 8-bit words. A \<open>time.Duration\<close> is a
  count of nanoseconds and an \<open>int\<close> is a signed machine integer; the option functions only
  store and compare them (no arithmetic), so both are read as \<open>int\<close>. A \<open>time.Time\<close> is
  read as a natural number, the zero time being \<open>0\<close>.
\<close>

type_synonym uint8 = "8 word"
type_synonym byte = "8 word"
type_synonym Duration = int
type_synonym Time = nat

definition Second :: Duration where
  "Second = 1000000000"

text \<open>
  An \<open>interface{}\<close> value handed to the client. The type assertion \<open>v.(ContentTyper)\<close>
  succeeds exactly on the values whose dynamic type has a \<open>ContentType() string\<close> method;
  such a value is \<open>ContentTyper ct x\<close>, with \<open>ct\<close> what the method returns.
\<close>

datatype 'a go_value = Plain 'a | ContentTyper string 'a

text \<open>
  Go's \<open>error\<close> values that occur here: the package's \<open>CodecNotFound\<close>, what a codec
  reports on its own (\<open>CodecFailure\<close>) and what a dialer reports (\<open>DialFailure\<close>). A nil
  \<open>error\<close> is \<open>None\<close> of \<open>error option\<close>.
\<close>

datatype error = CodecNotFound | CodecFailure string | DialFailure string

text \<open>\<open>amqp.Table\<close>: a Go map from strings to values, kept as an association list.\<close>

datatype field = FString string | FInt int | FBool bool

type_synonym Table = "(string \<times> field) list"

text \<open>\<open>amqp.Publishing\<close>, the message envelope, with the fields of the protocol library.\<close>

record Publishing =
  Headers :: Table
  ContentType :: string
  ContentEncoding :: string
  DeliveryMode :: uint8
  Priority :: uint8
  CorrelationId :: string
  ReplyTo :: string
  Expiration :: string
  MessageId :: string
  Timestamp :: Time
  Type :: string
  UserId :: string
  AppId :: string
  Body :: "byte list"

text \<open>The zero value of \<open>amqp.Publishing\<close>: what \<open>msg\<close> holds on entry, a named result.\<close>

definition zeroPublishing :: Publishing where
  "zeroPublishing = \<lparr> Headers = [], ContentType = [], ContentEncoding = [],
     DeliveryMode = 0, Priority = 0, CorrelationId = [], ReplyTo = [], Expiration = [],
     MessageId = [], Timestamp = 0, Type = [], UserId = [], AppId = [], Body = [] \<rparr>"

section \<open>Options\<close>

text \<open>
  \<open>context.Context\<close>, \<open>amqp.Delivery\<close> and \<open>conn.ConnectionOption\<close> belong to other
  packages; the options only store them.
\<close>

datatype go_context = Background | UserContext nat

typedecl Delivery
typedecl ConnectionOption

text \<open>
  Modelled from the spec: the \<open>logger\<close> package is not among the sources. The spec asks for
  "four independent sinks (debug/info/warn/error); a no-op default must exist", so a logger
  is the no-op default \<open>logger.NoopLogger\<close> or a sink supplied by the caller; \<open>NilLogger\<close> is
  the nil interface value, the zero value of a field of type \<open>logger.Logger\<close>.
\<close>

datatype Logger = NilLogger | NoopLogger | CustomLogger nat

text \<open>A value of a Go function type is nil (\<open>None\<close>) or a function.\<close>

type_synonym MessageIdBuilder = "(unit \<Rightarrow> string) option"
type_synonym 'a Typer = "('a go_value \<Rightarrow> string) option"
type_synonym PublishingBefore = "go_context \<Rightarrow> Publishing \<Rightarrow> Publishing"
type_synonym DeliveryBefore = "go_context \<Rightarrow> Delivery \<Rightarrow> go_context \<times> Delivery"
type_synonym ErrorBefore = "Delivery \<Rightarrow> error \<Rightarrow> error option"

text \<open>
  The struct \<open>messageOptions\<close> is declared outside the sources at hand; its fields are the
  ones \<open>defaultOptions\<close> and the option functions assign.
\<close>

record 'a messageOptions =
  idBuilder :: MessageIdBuilder
  typer :: "'a Typer"
  minPriority :: uint8
  maxPriority :: uint8
  applicationId :: string
  userId :: string
  pubBefore :: "PublishingBefore list"
  deliveryBefore :: "DeliveryBefore list"
  defaultContentType :: string

text \<open>
  The anonymous structs \<open>wait\<close>, \<open>timeout\<close> and \<open>log\<close> inside \<open>options\<close>. Field names are
  global in a record, so the fields of the inner structs carry the struct's name; the field
  \<open>context\<close> of \<open>options\<close> is \<open>ctx\<close>, the source's name being reserved.
\<close>

record waitOptions =
  wait_flag :: bool
  wait_timeout :: Duration

record timeoutOptions =
  timeout_base :: Duration
  timeout_cap :: int

record logOptions =
  log_debug :: Logger
  log_info :: Logger
  log_warn :: Logger
  log_error :: Logger

record 'a options =
  wait :: waitOptions
  timeout :: timeoutOptions
  subEventChanBuffer :: int
  log :: logOptions
  ctx :: go_context
  msgOpts :: "'a messageOptions"
  processAllDeliveries :: bool
  handlersAmount :: int
  errorBefore :: "ErrorBefore list"
  lazyCommands :: bool
  connOpts :: "ConnectionOption list"

definition MaxMessagePriority :: uint8 where
  "MaxMessagePriority = 9"

definition MinMessagePriority :: uint8 where
  "MinMessagePriority = 0"

definition defaultWaitDeadline :: Duration where
  "defaultWaitDeadline = Second * 5"

definition defaultEventBuffer :: int where
  "defaultEventBuffer = 1"

definition defaultHandlerAmount :: int where
  "defaultHandlerAmount = 1"

definition noopMessageIdBuilder :: MessageIdBuilder where
  "noopMessageIdBuilder = Some (\<lambda>_. [])"

definition noopTyper :: "'a Typer" where
  "noopTyper = Some (\<lambda>_. [])"

text \<open>\<open>options{}\<close>: every field at its zero value.\<close>

definition zeroOptions :: "'a options" where
  "zeroOptions = \<lparr>
     wait = \<lparr> wait_flag = False, wait_timeout = 0 \<rparr>,
     timeout = \<lparr> timeout_base = 0, timeout_cap = 0 \<rparr>,
     subEventChanBuffer = 0,
     log = \<lparr> log_debug = NilLogger, log_info = NilLogger,
             log_warn = NilLogger, log_error = NilLogger \<rparr>,
     ctx = Background,
     msgOpts = \<lparr> idBuilder = None, typer = None,
                 minPriority = 0, maxPriority = 0, applicationId = [], userId = [],
                 pubBefore = [], deliveryBefore = [], defaultContentType = [] \<rparr>,
     processAllDeliveries = False,
     handlersAmount = 0,
     errorBefore = [],
     lazyCommands = False,
     connOpts = [] \<rparr>"

definition defaultOptions :: "'a options" where
  "defaultOptions =
     (let opts = zeroOptions;
          opts = opts\<lparr> ctx := Background \<rparr>;
          opts = opts\<lparr> wait := (wait opts)\<lparr> wait_timeout := defaultWaitDeadline \<rparr> \<rparr>;
          opts = opts\<lparr> subEventChanBuffer := defaultEventBuffer \<rparr>;
          opts = opts\<lparr> msgOpts := (msgOpts opts)\<lparr> idBuilder := noopMessageIdBuilder \<rparr> \<rparr>;
          opts = opts\<lparr> msgOpts := (msgOpts opts)\<lparr> minPriority := MinMessagePriority \<rparr> \<rparr>;
          opts = opts\<lparr> msgOpts := (msgOpts opts)\<lparr> maxPriority := MaxMessagePriority \<rparr> \<rparr>;
          opts = opts\<lparr> msgOpts := (msgOpts opts)\<lparr> typer := noopTyper \<rparr> \<rparr>;
          opts = opts\<lparr> handlersAmount := defaultHandlerAmount \<rparr>;
          opts = opts\<lparr> log := (log opts)\<lparr> log_debug := NoopLogger \<rparr> \<rparr>;
          opts = opts\<lparr> log := (log opts)\<lparr> log_info := NoopLogger \<rparr> \<rparr>;
          opts = opts\<lparr> log := (log opts)\<lparr> log_warn := NoopLogger \<rparr> \<rparr>;
          opts = opts\<lparr> log := (log opts)\<lparr> log_error := NoopLogger \<rparr> \<rparr>;
          opts = opts\<lparr> msgOpts := (msgOpts opts)\<lparr> defaultContentType := ''application/json'' \<rparr> \<rparr>
      in opts)"

text \<open>
  An \<open>Option\<close> is a closure over \<open>*options\<close>. The exported constructors are the only way
  to build one outside the package; each is a constructor here, and \<open>applyOption\<close> is the
  body of the closure it returns, the updated options being the result. The option function
  \<open>UserId\<close> is \<open>UserId_opt\<close>, the name being a field of \<open>amqp.Publishing\<close> as well.
\<close>

datatype Option =
    WaitConnection bool Duration
  | EventChanBuffer int
  | Context go_context
  | SetMessageIdBuilder MessageIdBuilder
  | AllowedPriority uint8 uint8
  | ApplicationId string
  | UserId_opt string
  | InfoLogger Logger
  | DebugLogger Logger
  | ErrorLogger Logger
  | WarnLogger Logger
  | AllLoggers Logger
  | PublishBefore "PublishingBefore list"
  | DeliverBefore "DeliveryBefore list"
  | ProcessAllDeliveries bool
  | HandlersAmount int
  | LazyDeclaring bool
  | SetDefaultContentType string

fun applyOption :: "Option \<Rightarrow> 'a options \<Rightarrow> 'a options" where
  "applyOption (WaitConnection should t) options =
     (let options = options\<lparr> wait := (wait options)\<lparr> wait_flag := should \<rparr> \<rparr>
      in if t \<noteq> 0 then options\<lparr> wait := (wait options)\<lparr> wait_timeout := t \<rparr> \<rparr>
         else options)"
| "applyOption (EventChanBuffer a) options = options\<lparr> subEventChanBuffer := a \<rparr>"
| "applyOption (Context c) options = options\<lparr> ctx := c \<rparr>"
| "applyOption (SetMessageIdBuilder builder) options =
     options\<lparr> msgOpts := (msgOpts options)\<lparr> idBuilder := builder \<rparr> \<rparr>"
| "applyOption (AllowedPriority from to) options =
     (let options = options\<lparr> msgOpts := (msgOpts options)\<lparr> minPriority := from \<rparr> \<rparr>
      in options\<lparr> msgOpts := (msgOpts options)\<lparr> maxPriority := to \<rparr> \<rparr>)"
| "applyOption (ApplicationId i) options =
     options\<lparr> msgOpts := (msgOpts options)\<lparr> applicationId := i \<rparr> \<rparr>"
| "applyOption (UserId_opt i) options =
     options\<lparr> msgOpts := (msgOpts options)\<lparr> userId := i \<rparr> \<rparr>"
| "applyOption (InfoLogger lg) options = options\<lparr> log := (log options)\<lparr> log_info := lg \<rparr> \<rparr>"
| "applyOption (DebugLogger lg) options = options\<lparr> log := (log options)\<lparr> log_debug := lg \<rparr> \<rparr>"
| "applyOption (ErrorLogger lg) options = options\<lparr> log := (log options)\<lparr> log_error := lg \<rparr> \<rparr>"
| "applyOption (WarnLogger lg) options = options\<lparr> log := (log options)\<lparr> log_warn := lg \<rparr> \<rparr>"
| "applyOption (AllLoggers lg) options =
     options\<lparr> log := (log options)\<lparr> log_info := lg, log_debug := lg,
                                       log_error := lg, log_warn := lg \<rparr> \<rparr>"
| "applyOption (PublishBefore before) options =
     options\<lparr> msgOpts := (msgOpts options)\<lparr> pubBefore := pubBefore (msgOpts options) @ before \<rparr> \<rparr>"
| "applyOption (DeliverBefore before) options =
     options\<lparr> msgOpts := (msgOpts options)
                 \<lparr> deliveryBefore := deliveryBefore (msgOpts options) @ before \<rparr> \<rparr>"
| "applyOption (ProcessAllDeliveries v) options = options\<lparr> processAllDeliveries := v \<rparr>"
| "applyOption (HandlersAmount n) options =
     (if n > 0 then options\<lparr> handlersAmount := n \<rparr> else options)"
| "applyOption (LazyDeclaring v) options = options\<lparr> lazyCommands := v \<rparr>"
| "applyOption (SetDefaultContentType t) options =
     options\<lparr> msgOpts := (msgOpts options)\<lparr> defaultContentType := t \<rparr> \<rparr>"

text \<open>
  The client builds its options by running the option functions, in order, on the defaults.
\<close>

fun applyOptions :: "Option list \<Rightarrow> 'a options \<Rightarrow> 'a options" where
  "applyOptions [] options = options"
| "applyOptions (opt # rest) options = applyOptions rest (applyOption opt options)"

text \<open>An option function that leaves the allowed priorities a non-empty range.\<close>

fun orderedPriority :: "Option \<Rightarrow> bool" where
  "orderedPriority (AllowedPriority from to) = (from \<le> to)"
| "orderedPriority _ = True"

section \<open>Message construction\<close>

text \<open>
  The codec registry \<open>codecs.Register\<close> and the codecs belong to the package \<open>codecs\<close>,
  which is not among the sources; \<open>constructPublishing\<close> uses them only through
  \<open>Get(contentType) (codec, ok)\<close> and \<open>Encode(v) ([]byte, error)\<close>. The registry is a
  parameter of the model: a partial map from content types to codecs, \<open>None\<close> being
  \<open>ok = false\<close>. \<open>Encode\<close> returns both results, as in Go.
\<close>

record 'a Codec =
  Encode :: "'a go_value \<Rightarrow> byte list \<times> error option"

type_synonym 'a Registry = "string \<Rightarrow> 'a Codec option"

text \<open>
  The calls \<open>constructPublishing\<close> makes to its collaborators, in the order made: the
  registry lookup with its key, and the encoding of the value.
\<close>

datatype 'a call =
    RegisterGet string
  | CodecEncode "'a go_value"

text \<open>
  \<open>constructPublishing\<close>. \<open>time.Now()\<close> is the parameter \<open>now\<close> and \<open>http.DetectContentType\<close>
  of the standard library the parameter \<open>DetectContentType\<close>. The result is the pair
  \<open>(msg, err)\<close> of the source, preceded by the calls made. The local \<open>contentType\<close> is the
  empty string until a branch assigns it; the last branch assigns \<open>msg.ContentType\<close> only.
  The parameter \<open>defaultContentType\<close> carries a prime, the name being a field of
  \<open>messageOptions\<close> as well.
\<close>

definition constructPublishing ::
  "'a Registry \<Rightarrow> (byte list \<Rightarrow> string) \<Rightarrow> Time \<Rightarrow>
   'a go_value \<Rightarrow> uint8 \<Rightarrow> string \<Rightarrow> 'a call list \<times> Publishing \<times> error option" where
  "constructPublishing Register DetectContentType now v priority defaultContentType' =
     (let msg = zeroPublishing;
          msg = msg\<lparr> Timestamp := now \<rparr>;
          msg = msg\<lparr> Priority := priority \<rparr>;
          contentType = [];
          (msg, contentType) =
            (case v of
               ContentTyper ct _ \<Rightarrow>
                 (let msg = msg\<lparr> ContentType := ct \<rparr> in (msg, ContentType msg))
             | Plain _ \<Rightarrow>
                 if defaultContentType' \<noteq> [] then
                   (msg\<lparr> ContentType := defaultContentType' \<rparr>, defaultContentType')
                 else
                   (msg\<lparr> ContentType := DetectContentType (Body msg) \<rparr>, contentType))
      in case Register contentType of
           None \<Rightarrow> ([RegisterGet contentType], msg, Some CodecNotFound)
         | Some codec \<Rightarrow>
             (let (body, err) = Encode codec v
              in ([RegisterGet contentType, CodecEncode v], msg\<lparr> Body := body \<rparr>, err)))"

section \<open>Dialers\<close>

text \<open>
  \<open>amqp.Config\<close> of the protocol library, without its function and TLS fields. The locale
  of a connection is a field of the configuration, beside the table of client properties.
\<close>

record Config =
  Vhost :: string
  ChannelMax :: int
  FrameSize :: int
  Heartbeat :: Duration
  Properties :: Table
  Locale :: string

definition defaultProduct :: string where
  "defaultProduct = ''https://github.com/rifaniponk/amqp''"

definition defaultVersion :: string where
  "defaultVersion = ''v1.2.0''"

definition defaultPlatform :: string where
  "defaultPlatform = ''golang''"

definition defaultInformation :: string where
  "defaultInformation =
     ''AMQP lib github.com/rifaniponk/amqp for golang on top of https://github.com/streadway/amqp''"

definition defaultLocale :: string where
  "defaultLocale = ''en_US''"

definition defaultHeartbeat :: Duration where
  "defaultHeartbeat = 10 * Second"

text \<open>
  \<open>setupDefaultConfigProperties\<close>. A nil table and an empty one both have length 0 and are
  both replaced by a fresh empty table; \<open>prop[k]\<close> with \<open>ok\<close> is \<open>map_of prop k\<close>, and the
  assignment \<open>prop[k] = v\<close> is \<open>AList.update k v prop\<close>.
\<close>

definition setupDefaultConfigProperties :: "Table \<Rightarrow> Table" where
  "setupDefaultConfigProperties prop =
     (let prop = (if length prop = 0 then [] else prop);
          prop = (if map_of prop ''product'' = None
                  then AList.update ''product'' (FString defaultProduct) prop else prop);
          prop = (if map_of prop ''version'' = None
                  then AList.update ''version'' (FString defaultVersion) prop else prop);
          prop = (if map_of prop ''platform'' = None
                  then AList.update ''platform'' (FString defaultPlatform) prop else prop);
          prop = (if map_of prop ''information'' = None
                  then AList.update ''information'' (FString defaultInformation) prop else prop)
      in prop)"

text \<open>
  A \<open>Dialer\<close> is a function without arguments that returns a connection of the protocol
  library or an error. The constructor \<open>newConnection\<close> and the method \<open>connect\<close> of
  \<open>Connection\<close> are declared outside the sources, and so are the dial functions of the
  protocol library; all of them are parameters. \<open>connect\<close> has no result in the source: it
  works on the connection it is called on, which the model returns.
\<close>

typedecl tls_Config
typedecl ReadWriteCloser

type_synonym 'ac Dialer = "unit \<Rightarrow> error + 'ac"

definition DialWithDialer ::
  "(ConnectionOption list \<Rightarrow> 'c) \<Rightarrow> ('c \<Rightarrow> 'ac Dialer \<Rightarrow> 'c) \<Rightarrow>
   'ac Dialer \<Rightarrow> ConnectionOption list \<Rightarrow> 'c \<times> error option" where
  "DialWithDialer newConnection connect dialer opts =
     (let c = newConnection opts;
          c = connect c dialer
      in (c, None))"

definition Dial ::
  "(ConnectionOption list \<Rightarrow> 'c) \<Rightarrow> ('c \<Rightarrow> 'ac Dialer \<Rightarrow> 'c) \<Rightarrow> (string \<Rightarrow> error + 'ac) \<Rightarrow>
   string \<Rightarrow> ConnectionOption list \<Rightarrow> 'c \<times> error option" where
  "Dial newConnection connect amqp_Dial url opts =
     DialWithDialer newConnection connect (\<lambda>_. amqp_Dial url) opts"

definition DialTLS ::
  "(ConnectionOption list \<Rightarrow> 'c) \<Rightarrow> ('c \<Rightarrow> 'ac Dialer \<Rightarrow> 'c) \<Rightarrow>
   (string \<Rightarrow> tls_Config \<Rightarrow> error + 'ac) \<Rightarrow>
   string \<Rightarrow> tls_Config \<Rightarrow> ConnectionOption list \<Rightarrow> 'c \<times> error option" where
  "DialTLS newConnection connect amqp_DialTLS url amqps opts =
     DialWithDialer newConnection connect (\<lambda>_. amqp_DialTLS url amqps) opts"

definition DialConfig ::
  "(ConnectionOption list \<Rightarrow> 'c) \<Rightarrow> ('c \<Rightarrow> 'ac Dialer \<Rightarrow> 'c) \<Rightarrow>
   (string \<Rightarrow> Config \<Rightarrow> error + 'ac) \<Rightarrow>
   string \<Rightarrow> Config \<Rightarrow> ConnectionOption list \<Rightarrow> 'c \<times> error option" where
  "DialConfig newConnection connect amqp_DialConfig url config opts =
     (let config = config\<lparr> Properties := setupDefaultConfigProperties (Properties config) \<rparr>
      in DialWithDialer newConnection connect (\<lambda>_. amqp_DialConfig url config) opts)"

definition Open ::
  "(ConnectionOption list \<Rightarrow> 'c) \<Rightarrow> ('c \<Rightarrow> 'ac Dialer \<Rightarrow> 'c) \<Rightarrow>
   (ReadWriteCloser \<Rightarrow> Config \<Rightarrow> error + 'ac) \<Rightarrow>
   ReadWriteCloser \<Rightarrow> Config \<Rightarrow> ConnectionOption list \<Rightarrow> 'c \<times> error option" where
  "Open newConnection connect amqp_Open conn config opts =
     DialWithDialer newConnection connect (\<lambda>_. amqp_Open conn config) opts"

section \<open>Options: the defaults and the option functions\<close>

lemma defaultOptions_eq:
  "(defaultOptions :: 'a options) = \<lparr>
     wait = \<lparr> wait_flag = False, wait_timeout = 5000000000 \<rparr>,
     timeout = \<lparr> timeout_base = 0, timeout_cap = 0 \<rparr>,
     subEventChanBuffer = 1,
     log = \<lparr> log_debug = NoopLogger, log_info = NoopLogger,
             log_warn = NoopLogger, log_error = NoopLogger \<rparr>,
     ctx = Background,
     msgOpts = \<lparr> idBuilder = Some (\<lambda>_. []), typer = Some (\<lambda>_. []),
                 minPriority = 0, maxPriority = 9, applicationId = [], userId = [],
                 pubBefore = [], deliveryBefore = [],
                 defaultContentType = ''application/json'' \<rparr>,
     processAllDeliveries = False,
     handlersAmount = 1,
     errorBefore = [],
     lazyCommands = False,
     connOpts = [] \<rparr>"
  by (simp add: defaultOptions_def zeroOptions_def Let_def defaultWaitDeadline_def Second_def
      defaultEventBuffer_def defaultHandlerAmount_def noopMessageIdBuilder_def noopTyper_def
      MinMessagePriority_def MaxMessagePriority_def)

lemma applyOption_handlersAmount:
  "1 \<le> handlersAmount options \<Longrightarrow> 1 \<le> handlersAmount (applyOption opt options)"
  by (cases opt) (simp_all add: Let_def)

lemma applyOptions_handlersAmount:
  "1 \<le> handlersAmount options \<Longrightarrow> 1 \<le> handlersAmount (applyOptions opts options)"
proof (induction opts arbitrary: options)
  case Nil
  then show ?case by simp
next
  case (Cons opt rest)
  from Cons.prems have "1 \<le> handlersAmount (applyOption opt options)"
    by (rule applyOption_handlersAmount)
  then show ?case using Cons.IH by simp
qed

text \<open>
  C8. Whatever option functions are applied to the default options, in whatever order and
  with whatever arguments (\<open>HandlersAmount\<close> with zero or a negative number as well), the
  handler pool size \<open>handlersAmount\<close> of the resulting options is at least 1.
\<close>

theorem handlersAmount_at_least_one:
  "1 \<le> handlersAmount (applyOptions opts defaultOptions)"
proof -
  have "1 \<le> handlersAmount (defaultOptions :: 'a options)"
    by (simp add: defaultOptions_eq)
  then show ?thesis by (rule applyOptions_handlersAmount)
qed

text \<open>
  C9. With no option function supplied, the options are the defaults: default content type
  \<open>application/json\<close>, a wait timeout of 5 seconds (a second being \<open>10\<^sup>9\<close> nanoseconds), an
  event channel buffer of size 1, one handler, the allowed priorities from 0 to 9, a message
  id builder that returns the empty string, and the no-op logger on each of the four levels.
\<close>

theorem defaultOptions_values:
  "defaultContentType (msgOpts (applyOptions [] (defaultOptions :: 'a options)))
     = ''application/json''
   \<and> wait_timeout (wait (applyOptions [] (defaultOptions :: 'a options))) = 5 * Second
   \<and> Second = 1000000000
   \<and> subEventChanBuffer (applyOptions [] (defaultOptions :: 'a options)) = 1
   \<and> handlersAmount (applyOptions [] (defaultOptions :: 'a options)) = 1
   \<and> minPriority (msgOpts (applyOptions [] (defaultOptions :: 'a options))) = 0
   \<and> maxPriority (msgOpts (applyOptions [] (defaultOptions :: 'a options))) = 9
   \<and> map_option (\<lambda>builder. builder ())
         (idBuilder (msgOpts (applyOptions [] (defaultOptions :: 'a options)))) = Some []
   \<and> log (applyOptions [] (defaultOptions :: 'a options)) =
       \<lparr> log_debug = NoopLogger, log_info = NoopLogger,
         log_warn = NoopLogger, log_error = NoopLogger \<rparr>"
  by (simp add: defaultOptions_eq Second_def)

text \<open>
  C10. \<open>WaitConnection(should, 0)\<close> sets the wait flag to \<open>should\<close> and leaves the wait
  timeout as it was, so that on the default options the 5 seconds survive; a timeout other
  than zero replaces the configured wait timeout (and the flag is set all the same).
\<close>

theorem WaitConnection_zero_timeout:
  "wait_flag (wait (applyOption (WaitConnection should 0) (options :: 'a options))) = should
   \<and> wait_timeout (wait (applyOption (WaitConnection should 0) options))
       = wait_timeout (wait options)
   \<and> wait_timeout (wait (applyOption (WaitConnection should 0) (defaultOptions :: 'a options)))
       = 5 * Second
   \<and> (t \<noteq> 0 \<longrightarrow>
         wait_flag (wait (applyOption (WaitConnection should t) options)) = should
       \<and> wait_timeout (wait (applyOption (WaitConnection should t) options)) = t)"
  by (simp add: Let_def defaultOptions_eq Second_def)

theorem WaitConnection_zero_timeout_witness:
  "(7 :: Duration) \<noteq> 0
   \<and> wait_flag (wait (applyOption (WaitConnection True 7) (defaultOptions :: unit options)))
   \<and> wait_timeout (wait (applyOption (WaitConnection True 7) (defaultOptions :: unit options)))
       = 7
   \<and> wait_timeout (wait (applyOption (WaitConnection True 0) (defaultOptions :: unit options)))
       = 5000000000"
  using WaitConnection_zero_timeout [of True "defaultOptions :: unit options" 7]
  by (simp add: Second_def)

lemma applyOption_priority:
  "orderedPriority opt \<Longrightarrow> minPriority (msgOpts options) \<le> maxPriority (msgOpts options) \<Longrightarrow>
   minPriority (msgOpts (applyOption opt options))
     \<le> maxPriority (msgOpts (applyOption opt options))"
  by (cases opt) (simp_all add: Let_def)

lemma applyOptions_priority:
  "list_all orderedPriority opts \<Longrightarrow>
   minPriority (msgOpts options) \<le> maxPriority (msgOpts options) \<Longrightarrow>
   minPriority (msgOpts (applyOptions opts options))
     \<le> maxPriority (msgOpts (applyOptions opts options))"
proof (induction opts arbitrary: options)
  case Nil
  then show ?case by simp
next
  case (Cons opt rest)
  then show ?case by (simp add: applyOption_priority)
qed

text \<open>
  C7, as the spec has it: every options value reached from the defaults by option functions,
  \<open>AllowedPriority\<close> with arbitrary arguments among them, has \<open>minPriority \<le> maxPriority\<close>.
  \<open>AllowedPriority\<close> stores its two arguments as they come: after \<open>AllowedPriority(5, 3)\<close>
  the lower bound is above the upper one.
\<close>

theorem AllowedPriority_unordered_counterexample:
  "\<not> minPriority (msgOpts (applyOptions [AllowedPriority 5 3] (defaultOptions :: unit options)))
      \<le> maxPriority (msgOpts (applyOptions [AllowedPriority 5 3] (defaultOptions :: unit options)))"
  by (simp add: Let_def)

text \<open>
  C7, amended: when every \<open>AllowedPriority(from, to)\<close> among the option functions applied to
  the default options has \<open>from \<le> to\<close>, the resulting options have
  \<open>minPriority \<le> maxPriority\<close>, whatever the other option functions and their arguments.
\<close>

theorem priority_range_ordered:
  "list_all orderedPriority opts \<Longrightarrow>
   minPriority (msgOpts (applyOptions opts (defaultOptions :: 'a options)))
     \<le> maxPriority (msgOpts (applyOptions opts (defaultOptions :: 'a options)))"
  by (rule applyOptions_priority) (simp_all add: defaultOptions_eq)

theorem priority_range_ordered_witness:
  "list_all orderedPriority [AllowedPriority 2 7, HandlersAmount 0, AllowedPriority 4 4]
   \<and> minPriority (msgOpts (applyOptions [AllowedPriority 2 7, HandlersAmount 0, AllowedPriority 4 4]
        (defaultOptions :: unit options))) = 4
   \<and> maxPriority (msgOpts (applyOptions [AllowedPriority 2 7, HandlersAmount 0, AllowedPriority 4 4]
        (defaultOptions :: unit options))) = 4"
  using priority_range_ordered [where 'a = unit,
      of "[AllowedPriority 2 7, HandlersAmount 0, AllowedPriority 4 4]"]
  by (simp add: Let_def)

section \<open>Message construction: content type and codec lookup\<close>

text \<open>The three branches of the content-type resolution, each with its registry lookup.\<close>

lemma constructPublishing_ContentTyper:
  "constructPublishing Register D now (ContentTyper ct x) p d =
     (case Register ct of
        None \<Rightarrow> ([RegisterGet ct],
                  zeroPublishing\<lparr> Timestamp := now, Priority := p, ContentType := ct \<rparr>,
                  Some CodecNotFound)
      | Some codec \<Rightarrow> ([RegisterGet ct, CodecEncode (ContentTyper ct x)],
                  zeroPublishing\<lparr> Timestamp := now, Priority := p, ContentType := ct,
                                  Body := fst (Encode codec (ContentTyper ct x)) \<rparr>,
                  snd (Encode codec (ContentTyper ct x))))"
  by (simp add: constructPublishing_def Let_def split: option.splits prod.splits)

lemma constructPublishing_default:
  "d \<noteq> [] \<Longrightarrow> constructPublishing Register D now (Plain x) p d =
     (case Register d of
        None \<Rightarrow> ([RegisterGet d],
                  zeroPublishing\<lparr> Timestamp := now, Priority := p, ContentType := d \<rparr>,
                  Some CodecNotFound)
      | Some codec \<Rightarrow> ([RegisterGet d, CodecEncode (Plain x)],
                  zeroPublishing\<lparr> Timestamp := now, Priority := p, ContentType := d,
                                  Body := fst (Encode codec (Plain x)) \<rparr>,
                  snd (Encode codec (Plain x))))"
  by (simp add: constructPublishing_def Let_def split: option.splits prod.splits)

lemma constructPublishing_sniff:
  "constructPublishing Register D now (Plain x) p [] =
     (case Register [] of
        None \<Rightarrow> ([RegisterGet []],
                  zeroPublishing\<lparr> Timestamp := now, Priority := p, ContentType := D [] \<rparr>,
                  Some CodecNotFound)
      | Some codec \<Rightarrow> ([RegisterGet [], CodecEncode (Plain x)],
                  zeroPublishing\<lparr> Timestamp := now, Priority := p, ContentType := D [],
                                  Body := fst (Encode codec (Plain x)) \<rparr>,
                  snd (Encode codec (Plain x))))"
  by (simp add: constructPublishing_def Let_def zeroPublishing_def
      split: option.splits prod.splits)

text \<open>
  C1. The spec: the string handed to the registry's \<open>Get\<close> is never empty, and in the
  sniffing branch it is the content type sniffed from the body. In the code the sniffing
  branch stores the sniffed type in \<open>msg.ContentType\<close> and leaves the local \<open>contentType\<close>
  unassigned. For a value without a content type of its own and an empty default, the
  envelope gets the sniffed type \<open>text/plain; charset=utf-8\<close>, the registry is asked for the
  empty string, and the codec registered for the sniffed type is not found.
\<close>

theorem constructPublishing_sniffing_looks_up_empty_key:
  "constructPublishing
     (\<lambda>k. if k = ''text/plain; charset=utf-8''
          then Some \<lparr> Encode = (\<lambda>_. ([1, 2], None)) \<rparr> else None)
     (\<lambda>_. ''text/plain; charset=utf-8'') 0 (Plain ()) 0 []
   = ([RegisterGet []], zeroPublishing\<lparr> ContentType := ''text/plain; charset=utf-8'' \<rparr>,
      Some CodecNotFound)"
  by (simp add: constructPublishing_sniff zeroPublishing_def)

text \<open>
  C2, as the spec has it: when no codec is registered for the resolved content type,
  \<open>constructPublishing\<close> fails with \<open>CodecNotFound\<close>, the body is empty and no partial message
  is returned. The code returns \<open>msg\<close> beside the error, as it stands at the lookup: for a
  value declaring \<open>text/csv\<close> and priority 5 at time 1, with an empty registry, the error is
  \<open>CodecNotFound\<close> and the message returned carries the time, the priority and the content
  type; it is not the zero message.
\<close>

theorem CodecNotFound_partial_message_counterexample:
  "snd (snd (constructPublishing (\<lambda>_. None) (\<lambda>_. ''text/plain; charset=utf-8'') 1
       (ContentTyper ''text/csv'' ()) 5 ''application/json'')) = Some CodecNotFound
   \<and> fst (snd (constructPublishing (\<lambda>_. None) (\<lambda>_. ''text/plain; charset=utf-8'') 1
       (ContentTyper ''text/csv'' ()) 5 ''application/json''))
       = zeroPublishing\<lparr> Timestamp := 1, Priority := 5, ContentType := ''text/csv'' \<rparr>
   \<and> fst (snd (constructPublishing (\<lambda>_. None) (\<lambda>_. ''text/plain; charset=utf-8'') 1
       (ContentTyper ''text/csv'' ()) 5 ''application/json'')) \<noteq> zeroPublishing"
  by (simp add: constructPublishing_ContentTyper zeroPublishing_def)

text \<open>
  C2, amended: for a value that declares its content type, and for any other value under a
  non-empty default content type, the resolved content type (the declared type, else the
  default) is the one stamped on the envelope; when no codec is registered for it,
  \<open>constructPublishing\<close> fails with \<open>CodecNotFound\<close>, the lookup of that content type is the
  only call made (nothing is encoded) and the body of the returned message is empty; the
  message returned beside the error is the zero message with the timestamp, the priority
  and the resolved content type stamped on it.
\<close>

theorem constructPublishing_CodecNotFound:
  assumes "constructPublishing Register D now v p d = (calls, msg, err)"
    and "case v of ContentTyper ct x \<Rightarrow> True | Plain x \<Rightarrow> d \<noteq> []"
    and "Register (ContentType msg) = None"
  shows "ContentType msg = (case v of ContentTyper ct x \<Rightarrow> ct | Plain x \<Rightarrow> d)
     \<and> err = Some CodecNotFound \<and> Body msg = []
     \<and> calls = [RegisterGet (ContentType msg)]
     \<and> msg = zeroPublishing\<lparr> Timestamp := now, Priority := p,
           ContentType := (case v of ContentTyper ct x \<Rightarrow> ct | Plain x \<Rightarrow> d) \<rparr>"
proof (cases v)
  case (Plain x)
  with assms(2) have "d \<noteq> []"
    by simp
  with Plain assms(1,3) show ?thesis
    by (auto simp: constructPublishing_default zeroPublishing_def split: option.splits)
next
  case (ContentTyper ct x)
  with assms(1,3) show ?thesis
    by (auto simp: constructPublishing_ContentTyper zeroPublishing_def split: option.splits)
qed

theorem constructPublishing_CodecNotFound_witness:
  "constructPublishing (\<lambda>_. None) (\<lambda>_. ''text/plain; charset=utf-8'') 1
       (Plain ()) 5 ''application/json''
     = ([RegisterGet ''application/json''],
        zeroPublishing\<lparr> Timestamp := 1, Priority := 5, ContentType := ''application/json'' \<rparr>,
        Some CodecNotFound)
   \<and> (case (Plain () :: unit go_value) of
         ContentTyper ct x \<Rightarrow> True | Plain x \<Rightarrow> ''application/json'' \<noteq> [])
   \<and> (\<lambda>_. None :: unit Codec option)
         (ContentType (zeroPublishing\<lparr> Timestamp := 1, Priority := 5,
                                       ContentType := ''application/json'' \<rparr>)) = None
   \<and> ContentType (zeroPublishing\<lparr> Timestamp := 1, Priority := 5,
                                   ContentType := ''application/json'' \<rparr>) = ''application/json''
   \<and> Body (zeroPublishing\<lparr> Timestamp := 1, Priority := 5,
                            ContentType := ''application/json'' \<rparr>) = []"
proof -
  have run: "constructPublishing (\<lambda>_. None) (\<lambda>_. ''text/plain; charset=utf-8'') 1
       (Plain ()) 5 ''application/json''
     = ([RegisterGet ''application/json''],
        zeroPublishing\<lparr> Timestamp := 1, Priority := 5, ContentType := ''application/json'' \<rparr>,
        Some CodecNotFound)"
    by (simp add: constructPublishing_default)
  have resolved: "case (Plain () :: unit go_value) of
         ContentTyper ct x \<Rightarrow> True | Plain x \<Rightarrow> ''application/json'' \<noteq> []"
    by simp
  have miss: "(\<lambda>_. None :: unit Codec option)
         (ContentType (zeroPublishing\<lparr> Timestamp := 1, Priority := 5,
                                       ContentType := ''application/json'' \<rparr>)) = None"
    by simp
  from constructPublishing_CodecNotFound [OF run resolved miss] run resolved miss
  show ?thesis
    by simp
qed

text \<open>
  C3. The spec: a publish with a priority inside \<open>[minPriority, maxPriority]\<close> gets through
  the encoding whenever a codec is registered for the resolved content type. After
  \<open>SetDefaultContentType("")\<close> the allowed priorities are still 0 to 9; priority 5 is inside.
  For a value without a content type of its own the content type is resolved by sniffing, to
  \<open>text/plain; charset=utf-8\<close>, and a codec is registered for it; yet the message
  construction of the publish asks the registry for the empty string, ends in
  \<open>CodecNotFound\<close> and encodes nothing. The cause is the unassigned \<open>contentType\<close> of the
  sniffing branch.
\<close>

theorem in_range_priority_sniffed_type_not_encoded:
  "minPriority (msgOpts (applyOptions [SetDefaultContentType []] (defaultOptions :: unit options)))
     \<le> 5
   \<and> 5 \<le> maxPriority
         (msgOpts (applyOptions [SetDefaultContentType []] (defaultOptions :: unit options)))
   \<and> (\<lambda>k. if k = ''text/plain; charset=utf-8''
            then Some \<lparr> Encode = (\<lambda>_ :: unit go_value. ([123, 125], None)) \<rparr> else None)
         ''text/plain; charset=utf-8'' \<noteq> None
   \<and> constructPublishing
         (\<lambda>k. if k = ''text/plain; charset=utf-8''
              then Some \<lparr> Encode = (\<lambda>_. ([123, 125], None)) \<rparr> else None)
         (\<lambda>_. ''text/plain; charset=utf-8'') 0 (Plain ()) 5
         (defaultContentType
           (msgOpts (applyOptions [SetDefaultContentType []] (defaultOptions :: unit options))))
       = ([RegisterGet []],
          zeroPublishing\<lparr> Priority := 5, ContentType := ''text/plain; charset=utf-8'' \<rparr>,
          Some CodecNotFound)"
  by (simp add: defaultOptions_eq constructPublishing_sniff zeroPublishing_def)

text \<open>
  C6. For a value that declares its own content type, \<open>constructPublishing\<close> puts that type,
  as it is, into the \<open>ContentType\<close> field of the envelope and hands it, as it is, to the
  registry; the configured default content type plays no part in the result.
\<close>

theorem ContentTyper_verbatim:
  "ContentType (fst (snd (constructPublishing Register D now (ContentTyper ct x) p d))) = ct
   \<and> take 1 (fst (constructPublishing Register D now (ContentTyper ct x) p d))
       = [RegisterGet ct]
   \<and> constructPublishing Register D now (ContentTyper ct x) p d
       = constructPublishing Register D now (ContentTyper ct x) p d'"
  by (simp add: constructPublishing_ContentTyper split: option.splits)

section \<open>Dialers: errors and default properties\<close>

text \<open>
  C4. \<open>DialWithDialer\<close>, \<open>Dial\<close>, \<open>DialTLS\<close>, \<open>DialConfig\<close> and \<open>Open\<close> return a nil error,
  whatever the URL, the dialer, the configuration and the options, and whatever the dial
  functions of the protocol library answer: a failure to dial stays inside \<open>connect\<close>.
\<close>

theorem dial_returns_nil_error:
  "snd (DialWithDialer newConnection connect dialer opts) = None
   \<and> snd (Dial newConnection connect amqp_Dial url opts) = None
   \<and> snd (DialTLS newConnection connect amqp_DialTLS url amqps opts) = None
   \<and> snd (DialConfig newConnection connect amqp_DialConfig url config opts) = None
   \<and> snd (Open newConnection connect amqp_Open conn config opts) = None"
  by (simp add: DialWithDialer_def Dial_def DialTLS_def DialConfig_def Open_def Let_def)

text \<open>One guarded assignment of a default: a key already in the table keeps its value.\<close>

lemma set_default_step:
  "map_of (if map_of al a = None then AList.update a d al else al) k =
     (case map_of al k of Some v \<Rightarrow> Some v | None \<Rightarrow> if k = a then Some d else None)"
  by (auto simp: update_conv split: option.splits)

lemma map_of_setupDefaultConfigProperties:
  "map_of (setupDefaultConfigProperties al) k =
     (case map_of al k of
        Some v \<Rightarrow> Some v
      | None \<Rightarrow>
          if k = ''product'' then Some (FString defaultProduct)
          else if k = ''version'' then Some (FString defaultVersion)
          else if k = ''platform'' then Some (FString defaultPlatform)
          else if k = ''information'' then Some (FString defaultInformation)
          else None)"
proof -
  define p0 where "p0 = (if length al = 0 then [] else al)"
  define p1 where "p1 = (if map_of p0 ''product'' = None
     then AList.update ''product'' (FString defaultProduct) p0 else p0)"
  define p2 where "p2 = (if map_of p1 ''version'' = None
     then AList.update ''version'' (FString defaultVersion) p1 else p1)"
  define p3 where "p3 = (if map_of p2 ''platform'' = None
     then AList.update ''platform'' (FString defaultPlatform) p2 else p2)"
  define p4 where "p4 = (if map_of p3 ''information'' = None
     then AList.update ''information'' (FString defaultInformation) p3 else p3)"
  have run: "setupDefaultConfigProperties al = p4"
    unfolding setupDefaultConfigProperties_def Let_def p4_def p3_def p2_def p1_def p0_def
    by (rule refl)
  have "p0 = al"
    by (simp add: p0_def)
  then have m0: "map_of p0 k = map_of al k"
    by simp
  have m1: "map_of p1 k = (case map_of p0 k of Some v \<Rightarrow> Some v
      | None \<Rightarrow> if k = ''product'' then Some (FString defaultProduct) else None)"
    unfolding p1_def by (rule set_default_step)
  have m2: "map_of p2 k = (case map_of p1 k of Some v \<Rightarrow> Some v
      | None \<Rightarrow> if k = ''version'' then Some (FString defaultVersion) else None)"
    unfolding p2_def by (rule set_default_step)
  have m3: "map_of p3 k = (case map_of p2 k of Some v \<Rightarrow> Some v
      | None \<Rightarrow> if k = ''platform'' then Some (FString defaultPlatform) else None)"
    unfolding p3_def by (rule set_default_step)
  have m4: "map_of p4 k = (case map_of p3 k of Some v \<Rightarrow> Some v
      | None \<Rightarrow> if k = ''information'' then Some (FString defaultInformation) else None)"
    unfolding p4_def by (rule set_default_step)
  show ?thesis
    unfolding run m4 m3 m2 m1 m0 by (simp split: option.splits)
qed

text \<open>
  C5, as the spec has it: after the default-property setup the table has an entry for each of
  product, version, platform, information and locale. The setup assigns four defaults; no
  entry \<open>locale\<close> is made, the locale being a field of the configuration. For the empty table
  the result has no \<open>locale\<close>.
\<close>

theorem setupDefaultConfigProperties_locale_counterexample:
  "map_of (setupDefaultConfigProperties []) ''locale'' = None"
  by (simp add: map_of_setupDefaultConfigProperties)

text \<open>
  C5, amended: \<open>DialConfig\<close> dials with the caller's configuration in which the properties
  table is replaced by the result of the default-property setup on the caller's table. That
  handshake table has an entry for each of product, version, platform and information; every
  entry the caller supplied, under these keys or any other, is kept unchanged; and it has an
  entry \<open>locale\<close> exactly when the caller supplied one.
\<close>

theorem DialConfig_default_properties:
  "DialConfig newConnection connect amqp_DialConfig url config opts
     = DialWithDialer newConnection connect
         (\<lambda>_. amqp_DialConfig url
            (config\<lparr> Properties := setupDefaultConfigProperties (Properties config) \<rparr>)) opts
   \<and> map_of (Properties
         (config\<lparr> Properties := setupDefaultConfigProperties (Properties config) \<rparr>))
         ''product'' \<noteq> None
   \<and> map_of (Properties
         (config\<lparr> Properties := setupDefaultConfigProperties (Properties config) \<rparr>))
         ''version'' \<noteq> None
   \<and> map_of (Properties
         (config\<lparr> Properties := setupDefaultConfigProperties (Properties config) \<rparr>))
         ''platform'' \<noteq> None
   \<and> map_of (Properties
         (config\<lparr> Properties := setupDefaultConfigProperties (Properties config) \<rparr>))
         ''information'' \<noteq> None
   \<and> (map_of (Properties config) k = Some v \<longrightarrow>
        map_of (Properties
          (config\<lparr> Properties := setupDefaultConfigProperties (Properties config) \<rparr>)) k
          = Some v)
   \<and> map_of (Properties
         (config\<lparr> Properties := setupDefaultConfigProperties (Properties config) \<rparr>))
         ''locale'' = map_of (Properties config) ''locale''"
proof -
  have "DialConfig newConnection connect amqp_DialConfig url config opts
     = DialWithDialer newConnection connect
         (\<lambda>_. amqp_DialConfig url
            (config\<lparr> Properties := setupDefaultConfigProperties (Properties config) \<rparr>)) opts"
    by (simp add: DialConfig_def Let_def)
  moreover
  have "map_of (setupDefaultConfigProperties (Properties config)) ''product'' \<noteq> None"
    by (simp add: map_of_setupDefaultConfigProperties split: option.splits)
  moreover
  have "map_of (setupDefaultConfigProperties (Properties config)) ''version'' \<noteq> None"
    by (simp add: map_of_setupDefaultConfigProperties split: option.splits)
  moreover
  have "map_of (setupDefaultConfigProperties (Properties config)) ''platform'' \<noteq> None"
    by (simp add: map_of_setupDefaultConfigProperties split: option.splits)
  moreover
  have "map_of (setupDefaultConfigProperties (Properties config)) ''information'' \<noteq> None"
    by (simp add: map_of_setupDefaultConfigProperties split: option.splits)
  moreover
  have "map_of (Properties config) k = Some v \<longrightarrow>
      map_of (setupDefaultConfigProperties (Properties config)) k = Some v"
    by (simp add: map_of_setupDefaultConfigProperties)
  moreover
  have "map_of (setupDefaultConfigProperties (Properties config)) ''locale''
      = map_of (Properties config) ''locale''"
    by (simp add: map_of_setupDefaultConfigProperties split: option.splits)
  ultimately show ?thesis
    by simp
qed

text \<open>
  A run of \<open>DialConfig\<close> in which \<open>connect\<close> calls the dialer once and the dial function of
  the protocol library answers with the properties table it was given: the caller's
  \<open>product\<close> is kept in that table.
\<close>

theorem DialConfig_default_properties_witness:
  "map_of (Properties \<lparr> Vhost = ''/'', ChannelMax = 0, FrameSize = 0, Heartbeat = 0,
       Properties = [(''product'', FString ''mine''), (''locale'', FString ''de_DE'')],
       Locale = ''en_US'' \<rparr>) ''product'' = Some (FString ''mine'')
   \<and> (\<exists>table.
        fst (DialConfig (\<lambda>_. Inl (DialFailure [])) (\<lambda>c dialer. dialer ())
               (\<lambda>url config. Inr (Properties config)) ''amqp://localhost''
               \<lparr> Vhost = ''/'', ChannelMax = 0, FrameSize = 0, Heartbeat = 0,
                 Properties = [(''product'', FString ''mine''), (''locale'', FString ''de_DE'')],
                 Locale = ''en_US'' \<rparr> []) = Inr table
        \<and> map_of table ''product'' = Some (FString ''mine''))"
  using DialConfig_default_properties
    [of "\<lambda>_. Inl (DialFailure [])" "\<lambda>c dialer. dialer ()"
        "\<lambda>url config. Inr (Properties config)" "''amqp://localhost''"
        "\<lparr> Vhost = ''/'', ChannelMax = 0, FrameSize = 0, Heartbeat = 0,
           Properties = [(''product'', FString ''mine''), (''locale'', FString ''de_DE'')],
           Locale = ''en_US'' \<rparr>" "[]" "''product''" "FString ''mine''"]
  by (simp add: DialWithDialer_def Let_def)

end
